theory Spec2Isabelle
  imports Main "HOL-Library.Word" "HOL-Library.AList"
begin

unbundle bit_operations_syntax

section \<open>Time, errors and the event source\<close>

text \<open>
  Instants and durations are nanosecond counts (Go's \<open>time.Duration\<close> is an \<open>int64\<close> of
  nanoseconds). No computation of the watcher comes near the range of 64 bits, so they are
  modelled as \<open>int\<close>.
\<close>

type_synonym time = int

definition Second :: int where
  "Second = 1000000000"

definition DefaultDebounce :: int where
  "DefaultDebounce = 3 * Second"

definition DefaultRetryDelay :: int where
  "DefaultRetryDelay = 2 * Second"

text \<open>The two values \<open>ctx.Err()\<close> can have once the context is done.\<close>

datatype ctx_err = Canceled | DeadlineExceeded

text \<open>
  Error values: \<open>errors.New msg\<close>, the context's error, an error of the event source
  (opaque, named by its message) and \<open>fmt.Errorf("failed to watch directory %s: %w", dir, err)\<close>.
\<close>

datatype error =
    ErrorsNew string
  | CtxErr ctx_err
  | AdapterError string
  | WatchDirError string error

text \<open>
  A raw event of the event source: a path and a set of operations, kept as the bit mask
  \<open>fsnotify.Op\<close> (a \<open>uint32\<close>).
\<close>

record event =
  Name :: string
  Op :: "32 word"

text \<open>
  Modelled from the spec: the operation kinds of the event source (write, create, rename,
  remove, and permission change as the kind that is not acted upon). Their declaration
  (\<open>fsnotify.Op\<close>, bit flags \<open>1 << iota\<close>) is outside this repository.
\<close>

definition Create :: "32 word" where "Create = 1"
definition Write :: "32 word" where "Write = 2"
definition Remove :: "32 word" where "Remove = 4"
definition Rename :: "32 word" where "Rename = 8"

text \<open>
  A step of the function that \<open>WatchMultiple\<close> hands to \<open>time.AfterFunc\<close> (lines 259--264).
  The Go runtime runs that function on a goroutine of its own, beside the loop: the timer
  numbered \<open>i\<close> expires and its function starts (from then on \<open>Stop\<close> has no effect on it),
  the function sends on the channel (line 260), the function deletes from the map
  (lines 261--263). When each step happens is up to the runtime.
\<close>

datatype rt_step = Expire nat | Send nat | Delete nat

text \<open>
  What the outside world does while the function runs: the script. Each entry is stamped
  with the instant at which it happens: the \<open>select\<close> takes the case of the context being
  done, of a raw event on \<open>w.Events\<close>, or of a value on \<open>w.Errors\<close> (\<open>None\<close> is the nil error a
  closed channel yields); the runtime runs a step of a timer function of \<open>WatchMultiple\<close>;
  the \<open>select\<close> of \<open>WatchMultiple\<close> takes the case of its channel \<open>debouncedEvents\<close>. The script
  is the order in which all of this happens, so it also says which case a \<open>select\<close> takes
  when several are ready, and how the steps of the timer functions fall between the turns
  of the loop. The code takes no time of its own: it handles what it observes at the
  instant at which it observes it.
\<close>

datatype stimulus =
    CtxDone ctx_err
  | FsEvent event
  | FsError "error option"
  | Runtime rt_step
  | Receive

type_synonym script = "(time \<times> stimulus) list"

text \<open>
  Everything the code calls that is not code of this repository: the outcome of
  \<open>fsnotify.NewWatcher()\<close> (by number of the call and instant), the outcome of \<open>w.Add(dir)\<close>
  (by watcher, directory and instant), the order in which a \<open>range\<close> over the directory
  map visits its keys (Go leaves it unspecified; by number of the watcher), \<open>filepath.Dir\<close>
  and \<open>Event.String\<close>.
\<close>

record env =
  fsnotify_NewWatcher :: "nat \<Rightarrow> time \<Rightarrow> error option"
  fsnotify_Add :: "nat \<Rightarrow> string \<Rightarrow> time \<Rightarrow> error option"
  range_order :: "nat \<Rightarrow> string list"
  filepath_Dir :: "string \<Rightarrow> string"
  Event_String :: "event \<Rightarrow> string"

text \<open>
  The observable behaviour of a run: the calls of the three callbacks and the calls made on
  the event source, each stamped with the instant of the call.
\<close>

datatype action =
    CallNewWatcher nat "error option"
  | CallAdd nat string "error option"
  | CallClose nat
  | CallOnEvent string
  | CallOnError error
  | CallOnChange
  | CallOnChangeFile string

type_synonym trace = "(time \<times> action) list"

text \<open>
  How a run ends: the function returns an error value, or the script is used up while the
  function is blocked in a \<open>select\<close> (it is still watching), or the bound on the number of
  sessions of the model is reached.
\<close>

datatype run_end = Returns error | StillWatching | OutOfFuel

text \<open>How the inner \<open>for\<close>/\<open>select\<close> loop of one session ends.\<close>

datatype loop_exit = Return error | BreakLoop | Blocked

section \<open>Configuration\<close>

text \<open>
  A callback field is \<open>True\<close> when the function value is not nil; what the callback is called
  with is recorded in the trace.
\<close>

record Config =
  OnChange :: bool
  OnEvent :: bool
  OnError :: bool
  TargetFile :: string
  Debounce :: int
  RetryDelay :: int

record MultiConfig =
  OnChange :: bool
  OnEvent :: bool
  OnError :: bool
  TargetFiles :: "string list"
  Debounce :: int
  RetryDelay :: int

text \<open>The test on the operations of an event, shared by lines 87--88 and 247--248.\<close>

definition op_relevant :: "32 word \<Rightarrow> bool" where
  "op_relevant op \<longleftrightarrow>
     op AND Write \<noteq> 0 \<or> op AND Create \<noteq> 0 \<or> op AND Rename \<noteq> 0 \<or> op AND Remove \<noteq> 0"

text \<open>
  \<open>select { case <-time.After(cfg.RetryDelay): continue; case <-ctx.Done(): return ctx.Err() }\<close>
  with the timer due at \<open>wake\<close>: the context wins when it is done before that instant. No
  watcher is open during the wait, so raw events and errors of that period are never seen.
  The result is the context's error, if it won, and the rest of the script.
\<close>

fun retry_wait :: "time \<Rightarrow> script \<Rightarrow> (time \<times> ctx_err) option \<times> script" where
  "retry_wait wake [] = (None, [])"
| "retry_wait wake ((t, CtxDone c) # rest) =
     (if t < wake then (Some (t, c), rest) else (None, (t, CtxDone c) # rest))"
| "retry_wait wake ((t, s) # rest) =
     (if t < wake then retry_wait wake rest else (None, (t, s) # rest))"

section \<open>Watch: one target\<close>

text \<open>
  The state of a run: the clock and the number of watchers made so far; for \<open>Watch\<close>,
  the instant at which the timer \<open>debounce\<close> of the session is due, when it is armed.
\<close>

record clock =
  now :: time
  watchers :: nat

record wstate = clock +
  debounce :: "time option"

definition on_event :: "bool \<Rightarrow> time \<Rightarrow> string \<Rightarrow> trace" where
  "on_event cb t msg = (if cb then [(t, CallOnEvent msg)] else [])"

definition on_error :: "bool \<Rightarrow> time \<Rightarrow> error \<Rightarrow> trace" where
  "on_error cb t err = (if cb then [(t, CallOnError err)] else [])"

text \<open>Lines 34--39: the defaults.\<close>

definition Watch_defaults :: "Config \<Rightarrow> Config" where
  "Watch_defaults cfg =
     (let cfg1 = (if Config.Debounce cfg = 0 then cfg\<lparr>Config.Debounce := DefaultDebounce\<rparr> else cfg)
      in (if Config.RetryDelay cfg1 = 0 then cfg1\<lparr>Config.RetryDelay := DefaultRetryDelay\<rparr> else cfg1))"

text \<open>Lines 86--88: the test of a raw event against the target.\<close>

definition Watch_relevant :: "Config \<Rightarrow> event \<Rightarrow> bool" where
  "Watch_relevant cfg ev \<longleftrightarrow> Name ev = Config.TargetFile cfg \<and> op_relevant (Op ev)"

text \<open>
  Lines 95--101, \<open>case <-debounce.C\<close>: the timer of the session, when armed and due no later
  than \<open>t\<close>, fires before anything that happens at \<open>t\<close> is looked at.
\<close>

definition Watch_fire :: "Config \<Rightarrow> time \<Rightarrow> wstate \<Rightarrow> trace \<times> wstate" where
  "Watch_fire cfg t st =
     (case debounce st of
        None \<Rightarrow> ([], st)
      | Some d \<Rightarrow>
          if d \<le> t then
            (let n = max (now st) d
             in (on_event (Config.OnEvent cfg) n ''sending signal'' @ [(n, CallOnChange)],
                 st\<lparr>now := n, debounce := None\<rparr>))
          else ([], st))"

text \<open>Lines 85--93, \<open>case ev := <-w.Events\<close>.\<close>

definition Watch_event :: "env \<Rightarrow> Config \<Rightarrow> event \<Rightarrow> wstate \<Rightarrow> trace \<times> wstate" where
  "Watch_event e cfg ev st =
     (if Watch_relevant cfg ev then
        (on_event (Config.OnEvent cfg) (now st) (''change detected: '' @ Event_String e ev),
         st\<lparr>debounce := Some (now st + Config.Debounce cfg)\<rparr>)
      else ([], st))"

text \<open>
  Lines 78--109: the loop of one session on watcher \<open>w\<close>. When the script is used up the
  function stays blocked in the \<open>select\<close>; an armed timer still fires. \<open>Watch\<close> has no timer
  function and no channel of its own making: the entries of the script that are steps of
  those pass by.
\<close>

fun Watch_loop :: "env \<Rightarrow> Config \<Rightarrow> nat \<Rightarrow> wstate \<Rightarrow> script \<Rightarrow> trace \<times> loop_exit \<times> wstate \<times> script" where
  "Watch_loop e cfg w st [] =
     (case debounce st of
        None \<Rightarrow> ([], Blocked, st, [])
      | Some d \<Rightarrow> (let (tr, st1) = Watch_fire cfg d st in (tr, Blocked, st1, [])))"
| "Watch_loop e cfg w st ((t, s) # rest) =
     (let (tr1, st1) = Watch_fire cfg t st;
          st2 = st1\<lparr>now := max (now st1) t\<rparr>
      in case s of
           CtxDone c \<Rightarrow> (tr1 @ [(now st2, CallClose w)], Return (CtxErr c), st2, rest)
         | FsEvent ev \<Rightarrow>
             (let (tr2, st3) = Watch_event e cfg ev st2;
                  (tr3, x, st4, rest') = Watch_loop e cfg w st3 rest
              in (tr1 @ tr2 @ tr3, x, st4, rest'))
         | FsError err \<Rightarrow>
             (tr1 @ (case err of None \<Rightarrow> [] | Some er \<Rightarrow> on_error (Config.OnError cfg) (now st2) er),
              BreakLoop, st2, rest)
         | Runtime r \<Rightarrow>
             (let (tr3, x, st4, rest') = Watch_loop e cfg w st2 rest
              in (tr1 @ tr3, x, st4, rest'))
         | Receive \<Rightarrow>
             (let (tr3, x, st4, rest') = Watch_loop e cfg w st2 rest
              in (tr1 @ tr3, x, st4, rest')))"

text \<open>
  Lines 50--55 and 64--69: the wait before the next attempt, from the state at the moment
  the wait starts.
\<close>

definition Watch_retry :: "Config \<Rightarrow> wstate \<Rightarrow> script \<Rightarrow> (time \<times> ctx_err) option \<times> wstate \<times> script" where
  "Watch_retry cfg st scr =
     (let wake = now st + Config.RetryDelay cfg
      in case retry_wait wake scr of
           (Some (t, c), rest) \<Rightarrow> (Some (max (now st) t, c), st\<lparr>now := max (now st) t\<rparr>, rest)
         | (None, rest) \<Rightarrow> (None, st\<lparr>now := max (now st) wake\<rparr>, rest))"

text \<open>
  Lines 44--111: the outer \<open>for\<close>. Each turn costs one unit of fuel; the timer of a session
  is a new one, stopped (lines 75--76).
\<close>

fun Watch_sessions :: "nat \<Rightarrow> env \<Rightarrow> Config \<Rightarrow> wstate \<Rightarrow> script \<Rightarrow> trace \<times> run_end" where
  "Watch_sessions 0 e cfg st scr = ([], OutOfFuel)"
| "Watch_sessions (Suc n) e cfg st scr =
     (let w = watchers st; st0 = st\<lparr>watchers := Suc w\<rparr>
      in case fsnotify_NewWatcher e w (now st) of
           Some err \<Rightarrow>
             (let tr0 = (now st, CallNewWatcher w (Some err)) # on_error (Config.OnError cfg) (now st) err
              in case Watch_retry cfg st0 scr of
                   (Some (t, c), st1, rest) \<Rightarrow> (tr0, Returns (CtxErr c))
                 | (None, st1, rest) \<Rightarrow>
                     (let (tr, r) = Watch_sessions n e cfg st1 rest in (tr0 @ tr, r)))
         | None \<Rightarrow>
             (let dir = filepath_Dir e (Config.TargetFile cfg)
              in case fsnotify_Add e w dir (now st) of
                   Some err \<Rightarrow>
                     (let tr0 = [(now st, CallNewWatcher w None), (now st, CallAdd w dir (Some err))]
                                @ on_error (Config.OnError cfg) (now st) err
                                @ [(now st, CallClose w)]
                      in case Watch_retry cfg st0 scr of
                           (Some (t, c), st1, rest) \<Rightarrow> (tr0, Returns (CtxErr c))
                         | (None, st1, rest) \<Rightarrow>
                             (let (tr, r) = Watch_sessions n e cfg st1 rest in (tr0 @ tr, r)))
                 | None \<Rightarrow>
                     (let tr0 = [(now st, CallNewWatcher w None), (now st, CallAdd w dir None)]
                                @ on_event (Config.OnEvent cfg) (now st) (''watching '' @ dir);
                          (tr1, x, st1, rest) = Watch_loop e cfg w (st0\<lparr>debounce := None\<rparr>) scr
                      in case x of
                           Return err \<Rightarrow> (tr0 @ tr1, Returns err)
                         | Blocked \<Rightarrow> (tr0 @ tr1, StillWatching)
                         | BreakLoop \<Rightarrow>
                             (let (tr, r) = Watch_sessions n e cfg st1 rest
                              in (tr0 @ tr1 @ (now st1, CallClose w) # tr, r)))))"

text \<open>Lines 33--112. The run starts at instant 0 with no watcher made so far.\<close>

definition Watch :: "nat \<Rightarrow> env \<Rightarrow> Config \<Rightarrow> script \<Rightarrow> trace \<times> run_end" where
  "Watch fuel e cfg0 scr =
     (let cfg = Watch_defaults cfg0
      in if \<not> Config.OnChange cfg then ([], Returns (ErrorsNew ''OnChange callback must be set''))
         else Watch_sessions fuel e cfg \<lparr>now = 0, watchers = 0, debounce = None\<rparr> scr)"

section \<open>WatchMultiple: several targets\<close>

text \<open>
  A timer made by \<open>time.AfterFunc\<close> at line 259. Its function is a closure: it holds the
  \<open>targetFile\<close> of the event, and the \<open>debouncedEvents\<close> channel and the \<open>activeTimers\<close> map of
  the session that made it (\<open>tsess\<close>, the number of that session's pair of objects).
\<close>

record timer =
  tid :: nat
  deadline :: time
  tfile :: string
  tsess :: nat

text \<open>
  The state of a run of \<open>WatchMultiple\<close>. The timers of the runtime: those that are armed
  (\<open>pending\<close>), those that have expired and whose function has not sent yet (\<open>sending\<close>), and
  those whose function has sent and has not deleted yet (\<open>deleting\<close>). And a store of the
  objects made at lines 224 and 227, one channel and one map for each session, by number;
  the timers of a session that is over still hold its channel and its map. A channel is the
  list of the values waiting in it; a map of Go is a list of pairs with distinct keys, from
  the target to the number of the timer stored under it.
\<close>

record mstate = clock +
  sessions :: nat
  timers_made :: nat
  pending :: "timer list"
  sending :: "timer list"
  deleting :: "timer list"
  debouncedEvents :: "nat \<Rightarrow> string list"
  activeTimers :: "nat \<Rightarrow> (string \<times> nat) list"

text \<open>Lines 166--171: the defaults.\<close>

definition WatchMultiple_defaults :: "MultiConfig \<Rightarrow> MultiConfig" where
  "WatchMultiple_defaults cfg =
     (let cfg1 = (if Debounce cfg = 0 then cfg\<lparr>Debounce := DefaultDebounce\<rparr> else cfg)
      in (if RetryDelay cfg1 = 0 then cfg1\<lparr>RetryDelay := DefaultRetryDelay\<rparr> else cfg1))"

text \<open>
  Lines 180--184: \<open>dirToFiles[dir] = append(dirToFiles[dir], file)\<close> for each file, from the
  map \<open>m\<close>.
\<close>

fun group_files :: "(string \<Rightarrow> string) \<Rightarrow> string list \<Rightarrow> (string \<times> string list) list \<Rightarrow> (string \<times> string list) list" where
  "group_files dirf [] m = m"
| "group_files dirf (file # files) m =
     (let dir = dirf file
      in group_files dirf files
           (AList.update dir ((case map_of m dir of None \<Rightarrow> [] | Some fs \<Rightarrow> fs) @ [file]) m))"

text \<open>
  The keys of the map in the order the \<open>range\<close> of watcher \<open>w\<close> visits them: the keys the
  environment names, in its order, then the others. Every order of the keys is the order of
  some environment.
\<close>

definition range_keys :: "env \<Rightarrow> nat \<Rightarrow> (string \<times> string list) list \<Rightarrow> string list" where
  "range_keys e w m =
     (let ks = map fst m;
          first = remdups (filter (\<lambda>d. d \<in> set ks) (range_order e w))
      in first @ filter (\<lambda>d. d \<notin> set first) ks)"

text \<open>\<open>fmt.Sprintf("%d", n)\<close> of a number that is not negative.\<close>

fun decimal :: "nat \<Rightarrow> string" where
  "decimal n =
     (if n < 10 then [''0123456789'' ! n]
      else decimal (n div 10) @ [''0123456789'' ! (n mod 10)])"

declare decimal.simps [simp del]

text \<open>
  \<open>timer.Stop()\<close> on the timer numbered \<open>k\<close>: an armed timer is armed no more. On a timer
  that has expired it does nothing: the function of that timer runs, or has run.
\<close>

definition Stop :: "nat \<Rightarrow> mstate \<Rightarrow> mstate" where
  "Stop k st = st\<lparr>pending := filter (\<lambda>j. tid j \<noteq> k) (pending st)\<rparr>"

text \<open>
  Lines 259--264, one step of the function of the timer numbered \<open>i\<close>, when the runtime
  takes it.

  \<^item> \<open>Expire\<close>: the timer is armed and due, so it expires and its function starts.
  \<^item> \<open>Send\<close>, line 260: the function sends its file on the channel it holds. The channel has
    room for \<open>len(cfg.TargetFiles)\<close> values (line 224); while it is full the function stays
    blocked at the send.
  \<^item> \<open>Delete\<close>, lines 261--263: the function deletes its file from the map it holds, whatever
    timer stands under that key by then.

  A step that cannot be taken in the state (no such timer, not due, no room) leaves the
  state as it is.
\<close>

fun runtime_step :: "MultiConfig \<Rightarrow> rt_step \<Rightarrow> mstate \<Rightarrow> mstate" where
  "runtime_step cfg (Expire i) st =
     (case filter (\<lambda>k. tid k = i \<and> deadline k \<le> now st) (pending st) of
        [] \<Rightarrow> st
      | k # _ \<Rightarrow> st\<lparr>pending := remove1 k (pending st), sending := sending st @ [k]\<rparr>)"
| "runtime_step cfg (Send i) st =
     (case filter (\<lambda>k. tid k = i) (sending st) of
        [] \<Rightarrow> st
      | k # _ \<Rightarrow>
          if length (debouncedEvents st (tsess k)) < length (TargetFiles cfg) then
            st\<lparr>sending := remove1 k (sending st), deleting := deleting st @ [k],
               debouncedEvents := (debouncedEvents st)(tsess k := debouncedEvents st (tsess k) @ [tfile k])\<rparr>
          else st)"
| "runtime_step cfg (Delete i) st =
     (case filter (\<lambda>k. tid k = i) (deleting st) of
        [] \<Rightarrow> st
      | k # _ \<Rightarrow>
          st\<lparr>deleting := remove1 k (deleting st),
             activeTimers := (activeTimers st)(tsess k := AList.delete (tfile k) (activeTimers st (tsess k)))\<rparr>)"

text \<open>
  Lines 270--274, \<open>case file := <-debouncedEvents\<close>, on the channel of session \<open>cur\<close>: the
  value that has waited longest is received. With no value waiting the case cannot be
  taken.
\<close>

definition Multi_receive :: "MultiConfig \<Rightarrow> nat \<Rightarrow> mstate \<Rightarrow> trace \<times> mstate" where
  "Multi_receive cfg cur st =
     (case debouncedEvents st cur of
        [] \<Rightarrow> ([], st)
      | file # waiting \<Rightarrow>
          (on_event (OnEvent cfg) (now st) (''sending signal for: '' @ file)
             @ [(now st, CallOnChangeFile file)],
           st\<lparr>debouncedEvents := (debouncedEvents st)(cur := waiting)\<rparr>))"

text \<open>Lines 246--248: the test of a raw event against one target.\<close>

definition Multi_relevant :: "string \<Rightarrow> event \<Rightarrow> bool" where
  "Multi_relevant targetFile ev \<longleftrightarrow> Name ev = targetFile \<and> op_relevant (Op ev)"

text \<open>Lines 254--265: the timer of \<open>targetFile\<close> in the map of session \<open>cur\<close> is stopped and replaced.\<close>

definition reset_timer :: "MultiConfig \<Rightarrow> nat \<Rightarrow> string \<Rightarrow> mstate \<Rightarrow> mstate" where
  "reset_timer cfg cur targetFile st =
     (let st1 = (case map_of (activeTimers st cur) targetFile of
                   Some k \<Rightarrow> Stop k st
                 | None \<Rightarrow> st);
          k = timers_made st1
      in st1\<lparr>timers_made := Suc k,
             pending := pending st1 @ [\<lparr>tid = k, deadline = now st1 + Debounce cfg,
                                        tfile = targetFile, tsess = cur\<rparr>],
             activeTimers := (activeTimers st1)(cur := AList.update targetFile k (activeTimers st1 cur))\<rparr>)"

text \<open>
  Lines 243--268, \<open>case ev := <-w.Events\<close>: the \<open>for\<close> over the targets that are left, with
  its \<open>break\<close> at the first match.
\<close>

fun Multi_event :: "env \<Rightarrow> MultiConfig \<Rightarrow> nat \<Rightarrow> event \<Rightarrow> string list \<Rightarrow> mstate \<Rightarrow> trace \<times> mstate" where
  "Multi_event e cfg cur ev [] st = ([], st)"
| "Multi_event e cfg cur ev (targetFile # files) st =
     (if Multi_relevant targetFile ev then
        (on_event (OnEvent cfg) (now st) (''change detected: '' @ Event_String e ev),
         reset_timer cfg cur targetFile st)
      else Multi_event e cfg cur ev files st)"

text \<open>Lines 236--240: \<open>Stop\<close> on every timer in the map of session \<open>cur\<close>.\<close>

definition stop_active :: "nat \<Rightarrow> mstate \<Rightarrow> mstate" where
  "stop_active cur st =
     st\<lparr>pending := filter (\<lambda>j. tid j \<notin> set (map snd (activeTimers st cur))) (pending st)\<rparr>"

text \<open>
  Lines 230--282: the loop of one session on watcher \<open>w\<close>, with the channel and the map
  numbered \<open>cur\<close>. Each entry of the script is one turn of the \<open>select\<close>, or one step of a
  timer function beside it. When the script is used up the run is observed no further.
\<close>

fun Multi_loop :: "env \<Rightarrow> MultiConfig \<Rightarrow> nat \<Rightarrow> nat \<Rightarrow> mstate \<Rightarrow> script \<Rightarrow> trace \<times> loop_exit \<times> mstate \<times> script" where
  "Multi_loop e cfg w cur st [] = ([], Blocked, st, [])"
| "Multi_loop e cfg w cur st ((t, s) # rest) =
     (let st1 = st\<lparr>now := max (now st) t\<rparr>
      in case s of
           CtxDone c \<Rightarrow>
             ([(now st1, CallClose w)], Return (CtxErr c), stop_active cur st1, rest)
         | FsEvent ev \<Rightarrow>
             (let (tr2, st2) = Multi_event e cfg cur ev (TargetFiles cfg) st1;
                  (tr3, x, st3, rest') = Multi_loop e cfg w cur st2 rest
              in (tr2 @ tr3, x, st3, rest'))
         | FsError err \<Rightarrow>
             ((case err of None \<Rightarrow> [] | Some er \<Rightarrow> on_error (OnError cfg) (now st1) er),
              BreakLoop, st1, rest)
         | Runtime r \<Rightarrow> Multi_loop e cfg w cur (runtime_step cfg r st1) rest
         | Receive \<Rightarrow>
             (let (tr2, st2) = Multi_receive cfg cur st1;
                  (tr3, x, st3, rest') = Multi_loop e cfg w cur st2 rest
              in (tr2 @ tr3, x, st3, rest')))"

text \<open>
  \<open>select { case <-time.After(cfg.RetryDelay): continue; case <-ctx.Done(): return ctx.Err() }\<close>
  of lines 196--201 and 211--216, with the timer due at \<open>wake\<close>: as \<open>retry_wait\<close>, but the timer
  functions of earlier sessions go on taking their steps during the wait. No watcher is
  read and no channel is received from.
\<close>

fun Multi_wait :: "MultiConfig \<Rightarrow> time \<Rightarrow> mstate \<Rightarrow> script \<Rightarrow> (time \<times> ctx_err) option \<times> mstate \<times> script" where
  "Multi_wait cfg wake st [] = (None, st\<lparr>now := max (now st) wake\<rparr>, [])"
| "Multi_wait cfg wake st ((t, s) # rest) =
     (if t < wake then
        (case s of
           CtxDone c \<Rightarrow> (Some (max (now st) t, c), st\<lparr>now := max (now st) t\<rparr>, rest)
         | Runtime r \<Rightarrow> Multi_wait cfg wake (runtime_step cfg r (st\<lparr>now := max (now st) t\<rparr>)) rest
         | _ \<Rightarrow> Multi_wait cfg wake st rest)
      else (None, st\<lparr>now := max (now st) wake\<rparr>, (t, s) # rest))"

text \<open>The wait before the next attempt, from the state at the moment the wait starts.\<close>

definition Multi_retry :: "MultiConfig \<Rightarrow> mstate \<Rightarrow> script \<Rightarrow> (time \<times> ctx_err) option \<times> mstate \<times> script" where
  "Multi_retry cfg st scr = Multi_wait cfg (now st + RetryDelay cfg) st scr"

text \<open>
  Lines 205--221: the \<open>range\<close> over the directories that are left. The \<open>continue\<close> of line 213
  stands in this \<open>for\<close>, so it goes on with the next directory. The result is the context's
  error when a wait was cancelled, and \<open>None\<close> when the \<open>range\<close> is over and line 223 is next.
\<close>

fun add_dirs :: "env \<Rightarrow> MultiConfig \<Rightarrow> nat \<Rightarrow> string list \<Rightarrow> mstate \<Rightarrow> script \<Rightarrow> trace \<times> ctx_err option \<times> mstate \<times> script" where
  "add_dirs e cfg w [] st scr = ([], None, st, scr)"
| "add_dirs e cfg w (dir # dirs) st scr =
     (case fsnotify_Add e w dir (now st) of
        Some err \<Rightarrow>
          (let tr0 = (now st, CallAdd w dir (Some err))
                     # on_error (OnError cfg) (now st) (WatchDirError dir err)
                     @ [(now st, CallClose w)]
           in case Multi_retry cfg st scr of
                (Some (t, c), st1, rest) \<Rightarrow> (tr0, Some c, st1, rest)
              | (None, st1, rest) \<Rightarrow>
                  (let (tr, r, st2, rest') = add_dirs e cfg w dirs st1 rest
                   in (tr0 @ tr, r, st2, rest')))
      | None \<Rightarrow>
          (let tr0 = (now st, CallAdd w dir None)
                     # on_event (OnEvent cfg) (now st) (''watching directory: '' @ dir);
               (tr, r, st2, rest') = add_dirs e cfg w dirs st scr
           in (tr0 @ tr, r, st2, rest')))"

text \<open>
  Lines 190--284: the outer \<open>for\<close>. Each turn costs one unit of fuel. Lines 224 and 227
  make a new channel and a new map for the session.
\<close>

fun Multi_sessions :: "nat \<Rightarrow> env \<Rightarrow> MultiConfig \<Rightarrow> (string \<times> string list) list \<Rightarrow> mstate \<Rightarrow> script \<Rightarrow> trace \<times> run_end" where
  "Multi_sessions 0 e cfg dirToFiles st scr = ([], OutOfFuel)"
| "Multi_sessions (Suc n) e cfg dirToFiles st scr =
     (let w = watchers st; st0 = st\<lparr>watchers := Suc w\<rparr>
      in case fsnotify_NewWatcher e w (now st) of
           Some err \<Rightarrow>
             (let tr0 = (now st, CallNewWatcher w (Some err)) # on_error (OnError cfg) (now st) err
              in case Multi_retry cfg st0 scr of
                   (Some (t, c), st1, rest) \<Rightarrow> (tr0, Returns (CtxErr c))
                 | (None, st1, rest) \<Rightarrow>
                     (let (tr, r) = Multi_sessions n e cfg dirToFiles st1 rest in (tr0 @ tr, r)))
         | None \<Rightarrow>
             (let tr0 = [(now st, CallNewWatcher w None)]
              in case add_dirs e cfg w (range_keys e w dirToFiles) st0 scr of
                   (tr1, Some c, st1, rest) \<Rightarrow> (tr0 @ tr1, Returns (CtxErr c))
                 | (tr1, None, st1, rest) \<Rightarrow>
                     (let cur = sessions st1;
                          st2 = st1\<lparr>sessions := Suc cur,
                                    debouncedEvents := (debouncedEvents st1)(cur := []),
                                    activeTimers := (activeTimers st1)(cur := [])\<rparr>;
                          (tr2, x, st3, rest') = Multi_loop e cfg w cur st2 rest
                      in case x of
                           Return err \<Rightarrow> (tr0 @ tr1 @ tr2, Returns err)
                         | Blocked \<Rightarrow> (tr0 @ tr1 @ tr2, StillWatching)
                         | BreakLoop \<Rightarrow>
                             (let (tr, r) = Multi_sessions n e cfg dirToFiles st3 rest'
                              in (tr0 @ tr1 @ tr2 @ (now st3, CallClose w) # tr, r)))))"

text \<open>The state in which a run starts: instant 0, nothing made so far.\<close>

definition mstate0 :: mstate where
  "mstate0 = \<lparr>now = 0, watchers = 0, sessions = 0, timers_made = 0, pending = [],
              sending = [], deleting = [],
              debouncedEvents = (\<lambda>_. []), activeTimers = (\<lambda>_. [])\<rparr>"

text \<open>Lines 165--285.\<close>

definition WatchMultiple :: "nat \<Rightarrow> env \<Rightarrow> MultiConfig \<Rightarrow> script \<Rightarrow> trace \<times> run_end" where
  "WatchMultiple fuel e cfg0 scr =
     (let cfg = WatchMultiple_defaults cfg0
      in if \<not> OnChange cfg then ([], Returns (ErrorsNew ''OnChange callback must be set''))
         else if length (TargetFiles cfg) = 0
         then ([], Returns (ErrorsNew ''at least one target file must be specified''))
         else
           (let dirToFiles = group_files (filepath_Dir e) (TargetFiles cfg) [];
                tr0 = on_event (OnEvent cfg) 0
                        (''watching '' @ decimal (length (TargetFiles cfg)) @ '' files across ''
                         @ decimal (length dirToFiles) @ '' directories'');
                (tr, r) = Multi_sessions fuel e cfg dirToFiles mstate0 scr
            in (tr0 @ tr, r)))"

section \<open>What is read off a trace\<close>



text \<open>
  The instants of the calls of the change callback: of \<open>Watch\<close>, and of \<open>WatchMultiple\<close> for
  the file \<open>f\<close>.
\<close>

definition change_times :: "trace \<Rightarrow> time list" where
  "change_times tr = map fst (filter (\<lambda>(t, a). a = CallOnChange) tr)"

definition change_times_for :: "string \<Rightarrow> trace \<Rightarrow> time list" where
  "change_times_for f tr = map fst (filter (\<lambda>(t, a). a = CallOnChangeFile f) tr)"

section \<open>The debounce scheduler of the specification\<close>

text \<open>
  This definition follows the words of the specification, not the code: the scheduler
  keeps, for one target, at most one pending timer; each relevant event resets it to the
  settle delay; when it comes due without having been reset, one settled notification
  is given. \<open>spec_debounce rel D n p scr\<close> lists the instants of the settled notifications of a
  session that is at instant \<open>n\<close> with the pending deadline \<open>p\<close> and then sees the script
  \<open>scr\<close>, up to the end of the session (cancellation or an error of the event source).
  \<open>Watch\<close> is compared with it below.
\<close>

fun spec_debounce :: "(event \<Rightarrow> bool) \<Rightarrow> int \<Rightarrow> time \<Rightarrow> time option \<Rightarrow> script \<Rightarrow> time list" where
  "spec_debounce rel D n p [] = (case p of None \<Rightarrow> [] | Some d \<Rightarrow> [max n d])"
| "spec_debounce rel D n p ((t, s) # rest) =
     (let out = (case p of None \<Rightarrow> [] | Some d \<Rightarrow> if d \<le> t then [max n d] else []);
          p1 = (case p of None \<Rightarrow> None | Some d \<Rightarrow> if d \<le> t then None else Some d);
          n1 = max n t
      in case s of
           FsEvent ev \<Rightarrow> out @ spec_debounce rel D n1 (if rel ev then Some (n1 + D) else p1) rest
         | CtxDone c \<Rightarrow> out
         | FsError x \<Rightarrow> out
         | Runtime r \<Rightarrow> out @ spec_debounce rel D n1 p1 rest
         | Receive \<Rightarrow> out @ spec_debounce rel D n1 p1 rest)"

text \<open>
  A burst. \<open>within_settle rel D lo l win\<close> holds for a piece \<open>win\<close> of a script whose entries
  stand in the order of their instants, none before \<open>lo\<close>, each of them less than the settle
  delay \<open>D\<close> after the latest relevant event before it (\<open>l\<close>, when there has been one), and
  none of them the end of the session (cancellation or an error of the event source).
  \<open>last_relevant\<close> is the instant of the last relevant event and \<open>end_time\<close> the instant of the
  last entry.
\<close>

fun within_settle :: "(event \<Rightarrow> bool) \<Rightarrow> int \<Rightarrow> time \<Rightarrow> time option \<Rightarrow> script \<Rightarrow> bool" where
  "within_settle rel D lo l [] = True"
| "within_settle rel D lo l ((t, s) # r) =
     (lo \<le> t \<and> (case l of None \<Rightarrow> True | Some u \<Rightarrow> t < u + D)
      \<and> (case s of
            CtxDone c \<Rightarrow> False
          | FsEvent ev \<Rightarrow> within_settle rel D t (if rel ev then Some t else l) r
          | FsError x \<Rightarrow> False
          | Runtime rs \<Rightarrow> within_settle rel D t l r
          | Receive \<Rightarrow> within_settle rel D t l r))"

fun last_relevant :: "(event \<Rightarrow> bool) \<Rightarrow> time option \<Rightarrow> script \<Rightarrow> time option" where
  "last_relevant rel l [] = l"
| "last_relevant rel l ((t, s) # r) =
     last_relevant rel (case s of FsEvent ev \<Rightarrow> if rel ev then Some t else l | _ \<Rightarrow> l) r"

fun end_time :: "time \<Rightarrow> script \<Rightarrow> time" where
  "end_time n [] = n"
| "end_time n ((t, s) # r) = end_time t r"

text \<open>
  A piece of a script with no relevant event in it, and one in which the session does not
  end (by cancellation or an error of the event source) at the instant \<open>d\<close> or before.
\<close>

fun quiet :: "(event \<Rightarrow> bool) \<Rightarrow> script \<Rightarrow> bool" where
  "quiet rel [] = True"
| "quiet rel ((t, s) # r) = ((case s of FsEvent ev \<Rightarrow> \<not> rel ev | _ \<Rightarrow> True) \<and> quiet rel r)"

fun no_end_until :: "time \<Rightarrow> script \<Rightarrow> bool" where
  "no_end_until d [] = True"
| "no_end_until d ((t, s) # r) =
     ((case s of CtxDone c \<Rightarrow> d < t | FsError x \<Rightarrow> d < t | _ \<Rightarrow> True) \<and> no_end_until d r)"

section \<open>The timers of a state\<close>

text \<open>
  A timer of the key \<open>(cur, f)\<close> holds the target \<open>f\<close> and the objects of session \<open>cur\<close>.
  \<open>pend cur f st\<close> are the armed timers of that key and \<open>timers_of st\<close> all the timers whose
  function has not ended.
\<close>

definition of_key :: "nat \<Rightarrow> string \<Rightarrow> timer \<Rightarrow> bool" where
  "of_key cur f k \<longleftrightarrow> tsess k = cur \<and> tfile k = f"

definition pend :: "nat \<Rightarrow> string \<Rightarrow> mstate \<Rightarrow> timer list" where
  "pend cur f st = filter (of_key cur f) (pending st)"

definition timers_of :: "mstate \<Rightarrow> timer list" where
  "timers_of st = pending st @ sending st @ deleting st"

text \<open>
  What the code keeps of its timers, whatever the order of the steps: a timer was made
  before (its number is below the count of timers made) in a session opened before; a
  number in a map was given to a timer made before; and a timer that bears the number
  found in a map under a key is a timer of that key and that map, since the number was
  stored under the key when the timer was made for it (line 259).
\<close>

definition store_ok :: "mstate \<Rightarrow> bool" where
  "store_ok st \<longleftrightarrow>
     (\<forall>k \<in> set (timers_of st). tid k < timers_made st \<and> tsess k < sessions st)
     \<and> (\<forall>s g i. map_of (activeTimers st s) g = Some i \<longrightarrow>
            i < timers_made st \<and> (\<forall>k \<in> set (timers_of st). tid k = i \<longrightarrow> of_key s g k))"

text \<open>
  The target \<open>f\<close> is idle in session \<open>cur\<close>: no timer of the key is armed, none has a function
  that has not ended, and no value \<open>f\<close> waits in the channel.
\<close>

definition idle :: "nat \<Rightarrow> string \<Rightarrow> mstate \<Rightarrow> bool" where
  "idle cur f st \<longleftrightarrow>
     (\<forall>k \<in> set (timers_of st). \<not> of_key cur f k) \<and> f \<notin> set (debouncedEvents st cur)"

text \<open>
  The calls of the change callback for \<open>f\<close> that session \<open>cur\<close> can still make without a
  further event for \<open>f\<close>: one for each armed timer of the key, one for each function of the
  key that has not sent yet, and one for each value \<open>f\<close> waiting in the channel.
\<close>

definition potential :: "nat \<Rightarrow> string \<Rightarrow> mstate \<Rightarrow> nat" where
  "potential cur f st =
     length (pend cur f st) + length (filter (of_key cur f) (sending st))
     + length (filter (\<lambda>g. g = f) (debouncedEvents st cur))"

text \<open>
  The target \<open>f\<close> in the middle of a burst in session \<open>cur\<close>, with the settle delay \<open>D\<close>: no
  function of the key is running and no value \<open>f\<close> waits; when the latest relevant event
  was at \<open>u\<close>, one timer of the key is armed, for \<open>u + D\<close>, and it is the one in the map; before
  the first relevant event none is armed.
\<close>

definition in_burst :: "int \<Rightarrow> nat \<Rightarrow> string \<Rightarrow> time option \<Rightarrow> mstate \<Rightarrow> bool" where
  "in_burst D cur f l st \<longleftrightarrow>
     (\<forall>k \<in> set (sending st @ deleting st). \<not> of_key cur f k)
     \<and> f \<notin> set (debouncedEvents st cur)
     \<and> (case l of
          None \<Rightarrow> pend cur f st = []
        | Some u \<Rightarrow> \<exists>k. pend cur f st = [k] \<and> deadline k = u + D
                         \<and> map_of (activeTimers st cur) f = Some (tid k))"

text \<open>
  No call of the change callback for \<open>f\<close> can come before the instant \<open>b\<close> in session \<open>cur\<close>
  without a further event for \<open>f\<close>: the armed timers of the key are due at \<open>b\<close> or later, and
  a function of the key that has not sent yet, or a value \<open>f\<close> that waits, is there only
  when the clock has reached \<open>b\<close>.
\<close>

definition settles_from :: "time \<Rightarrow> nat \<Rightarrow> string \<Rightarrow> mstate \<Rightarrow> bool" where
  "settles_from b cur f st \<longleftrightarrow>
     (\<forall>k \<in> set (pend cur f st). b \<le> deadline k)
     \<and> (b \<le> now st
        \<or> filter (of_key cur f) (sending st) = [] \<and> f \<notin> set (debouncedEvents st cur))"

text \<open>The state in which the loop of a session is after a piece of script.\<close>

definition Multi_state :: "env \<Rightarrow> MultiConfig \<Rightarrow> nat \<Rightarrow> nat \<Rightarrow> mstate \<Rightarrow> script \<Rightarrow> mstate" where
  "Multi_state e cfg w cur st scr = fst (snd (snd (Multi_loop e cfg w cur st scr)))"

text \<open>The timer a step of the runtime names.\<close>

fun step_timer :: "rt_step \<Rightarrow> nat" where
  "step_timer (Expire i) = i"
| "step_timer (Send i) = i"
| "step_timer (Delete i) = i"

text \<open>
  The state with every timer, every waiting value and every entry of a map taken away;
  the clock and the counts stay.
\<close>

definition forget_timers :: "mstate \<Rightarrow> mstate" where
  "forget_timers st =
     st\<lparr>pending := [], sending := [], deleting := [],
        debouncedEvents := (\<lambda>_. []), activeTimers := (\<lambda>_. [])\<rparr>"

section \<open>Example inputs\<close>

text \<open>
  A stand-in for \<open>filepath.Dir\<close> on clean absolute paths with \<open>/\<close> as separator: the path
  without its last element.
\<close>

definition ex_Dir :: "string \<Rightarrow> string" where
  "ex_Dir p =
     (let d = rev (drop 1 (dropWhile (\<lambda>c. c \<noteq> CHR ''/'') (rev p)))
      in if d = [] then ''/'' else d)"

text \<open>An environment in which every call on the event source succeeds.\<close>

definition ex_env :: env where
  "ex_env = \<lparr>fsnotify_NewWatcher = (\<lambda>_ _. None), fsnotify_Add = (\<lambda>_ _ _. None),
     range_order = (\<lambda>_. []), filepath_Dir = ex_Dir, Event_String = Name\<rparr>"

text \<open>
  An environment in which the first watcher cannot register \<open>/a\<close> (the directory is not
  there yet) and, once closed, refuses every other directory; later watchers succeed.
\<close>

definition ex_env_missing :: env where
  "ex_env_missing = \<lparr>fsnotify_NewWatcher = (\<lambda>_ _. None),
     fsnotify_Add = (\<lambda>w d t. if w = 0 then (if d = ''/a'' then Some (AdapterError ''no such file or directory'')
                                              else Some (AdapterError ''watcher already closed''))
                             else None),
     range_order = (\<lambda>_. []), filepath_Dir = ex_Dir, Event_String = Name\<rparr>"

definition ex_cfg :: Config where
  "ex_cfg = \<lparr>Config.OnChange = True, Config.OnEvent = True, Config.OnError = True,
     TargetFile = ''/a/t'', Config.Debounce = 50, Config.RetryDelay = 0\<rparr>"

definition ex_mcfg :: MultiConfig where
  "ex_mcfg = \<lparr>OnChange = True, OnEvent = True, OnError = True,
     TargetFiles = [''/a/x'', ''/b/y''], Debounce = 50, RetryDelay = 0\<rparr>"

definition ex_write :: "string \<Rightarrow> stimulus" where
  "ex_write f = FsEvent \<lparr>Name = f, Op = Write\<rparr>"

text \<open>
  States for the examples: a session of \<open>Watch\<close> and of \<open>WatchMultiple\<close> just opened on the
  first watcher, and the latter with the timer of one target armed.
\<close>

definition ex_mstate :: mstate where
  "ex_mstate = \<lparr>now = 0, watchers = 1, sessions = 1, timers_made = 0, pending = [],
                sending = [], deleting = [],
                debouncedEvents = (\<lambda>_. []), activeTimers = (\<lambda>_. [])\<rparr>"

definition ex_wstate :: wstate where
  "ex_wstate = \<lparr>now = 0, watchers = 1, debounce = None\<rparr>"

definition ex_pending_y :: mstate where
  "ex_pending_y = (reset_timer ex_mcfg 0 ''/b/y'' ex_mstate)\<lparr>now := 5\<rparr>"

definition ex_pending_x :: mstate where
  "ex_pending_x = reset_timer ex_mcfg 0 ''/a/x'' ex_mstate"

section \<open>Properties\<close>

subsection \<open>Auxiliary facts\<close>

lemma Watch_loop_Return:
  "Watch_loop e cfg w st scr = (tr, Return err, st', rest) \<Longrightarrow> \<exists>t c. err = CtxErr c \<and> (t, CtxDone c) \<in> set scr"
proof (induction scr arbitrary: st tr)
  case Nil
  then show ?case by (auto simp: Let_def split: option.splits prod.splits)
next
  case (Cons a scr)
  obtain t s where a: "a = (t, s)" by (cases a)
  show ?case
  proof (cases s)
    case (CtxDone c)
    with Cons.prems a show ?thesis by (auto simp: Let_def split: prod.splits)
  next
    case (FsEvent ev)
    with Cons.prems a show ?thesis
      by (auto simp: Let_def split: prod.splits dest!: Cons.IH)
  next
    case (FsError x)
    with Cons.prems a show ?thesis by (auto simp: Let_def split: prod.splits)
  next
    case (Runtime r)
    with Cons.prems a show ?thesis
      by (auto simp: Let_def split: prod.splits dest!: Cons.IH)
  next
    case Receive
    with Cons.prems a show ?thesis
      by (auto simp: Let_def split: prod.splits dest!: Cons.IH)
  qed
qed

lemma retry_wait_Some: "retry_wait wake scr = (Some (t, c), rest) \<Longrightarrow> (t, CtxDone c) \<in> set scr"
  by (induction wake scr rule: retry_wait.induct) (auto split: if_splits)

lemma retry_wait_subset: "retry_wait wake scr = (r, rest) \<Longrightarrow> set rest \<subseteq> set scr"
  by (induction wake scr arbitrary: r rest rule: retry_wait.induct) (auto split: if_splits)


lemma Watch_loop_rest: "Watch_loop e cfg w st scr = (tr, x, st', rest) \<Longrightarrow> set rest \<subseteq> set scr"
proof (induction scr arbitrary: st tr)
  case Nil
  then show ?case by (auto simp: Let_def split: option.splits prod.splits)
next
  case (Cons a scr)
  obtain t s where a: "a = (t, s)" by (cases a)
  show ?case
  proof (cases s)
    case (CtxDone c)
    with Cons.prems a show ?thesis by (auto simp: Let_def split: prod.splits)
  next
    case (FsEvent ev)
    with Cons.prems a show ?thesis
      by (auto simp: Let_def split: prod.splits dest!: Cons.IH)
  next
    case (FsError x)
    with Cons.prems a show ?thesis by (auto simp: Let_def split: prod.splits)
  next
    case (Runtime r)
    with Cons.prems a show ?thesis
      by (auto simp: Let_def split: prod.splits dest!: Cons.IH)
  next
    case Receive
    with Cons.prems a show ?thesis
      by (auto simp: Let_def split: prod.splits dest!: Cons.IH)
  qed
qed

lemma Watch_retry_Some:
  "Watch_retry cfg st scr = (Some (t, c), st', rest) \<Longrightarrow> \<exists>t'. (t', CtxDone c) \<in> set scr"
  by (auto simp: Watch_retry_def Let_def split: prod.splits option.splits dest: retry_wait_Some)

lemma Watch_retry_rest:
  "Watch_retry cfg st scr = (r, st', rest) \<Longrightarrow> set rest \<subseteq> set scr"
  by (auto simp: Watch_retry_def Let_def split: prod.splits option.splits dest: retry_wait_subset)

lemma Watch_sessions_Returns:
  "Watch_sessions n e cfg st scr = (tr, Returns err) \<Longrightarrow> \<exists>t c. err = CtxErr c \<and> (t, CtxDone c) \<in> set scr"
proof (induction n arbitrary: st scr tr)
  case 0
  then show ?case by simp
next
  case (Suc n)
  let ?w = "watchers st"
  let ?st0 = "st\<lparr>watchers := Suc ?w\<rparr>"
  let ?dir = "filepath_Dir e (Config.TargetFile cfg)"
  have retry: "\<exists>t c. err = CtxErr c \<and> (t, CtxDone c) \<in> set scr"
    if "(case Watch_retry cfg ?st0 scr of
           (Some (t, c), st1, rest) \<Rightarrow> (tr0, Returns (CtxErr c))
         | (None, st1, rest) \<Rightarrow> (let (tr, r) = Watch_sessions n e cfg st1 rest in (tr0 @ tr, r)))
        = (tr, Returns err)" for tr0
  proof -
    obtain r st1 rest where R: "Watch_retry cfg ?st0 scr = (r, st1, rest)"
      by (cases "Watch_retry cfg ?st0 scr") auto
    show ?thesis
    proof (cases r)
      case None
      with that R obtain tr' where "Watch_sessions n e cfg st1 rest = (tr', Returns err)"
        by (auto split: prod.splits)
      from Suc.IH [OF this] Watch_retry_rest [OF R] show ?thesis by blast
    next
      case (Some tc)
      with that R Watch_retry_Some [of cfg ?st0 scr "fst tc" "snd tc" st1 rest]
      show ?thesis by (cases tc) auto
    qed
  qed
  show ?case
  proof (cases "fsnotify_NewWatcher e ?w (now st)")
    case (Some er)
    with Suc.prems show ?thesis
      by (intro retry) (simp add: Let_def)
  next
    case None
    note nw = this
    show ?thesis
    proof (cases "fsnotify_Add e ?w ?dir (now st)")
      case (Some er)
      with nw Suc.prems show ?thesis
        by (intro retry) (simp add: Let_def)
    next
      case None
      obtain tr1 x st1 rest where L: "Watch_loop e cfg ?w (?st0\<lparr>debounce := None\<rparr>) scr = (tr1, x, st1, rest)"
        by (metis prod_cases4)
      show ?thesis
      proof (cases x)
        case (Return er)
        with nw None L Suc.prems have "er = err" by (simp add: Let_def)
        with Watch_loop_Return L Return show ?thesis by blast
      next
        case BreakLoop
        with nw None L Suc.prems obtain tr' where "Watch_sessions n e cfg st1 rest = (tr', Returns err)"
          by (auto simp: Let_def split: prod.splits)
        from Suc.IH [OF this] Watch_loop_rest [OF L] show ?thesis by blast
      next
        case Blocked
        with nw None L Suc.prems show ?thesis by (simp add: Let_def)
      qed
    qed
  qed
qed


lemma Multi_loop_Return:
  "Multi_loop e cfg w cur st scr = (tr, Return err, st', rest) \<Longrightarrow> \<exists>t c. err = CtxErr c \<and> (t, CtxDone c) \<in> set scr"
proof (induction scr arbitrary: st tr)
  case Nil
  then show ?case by (auto simp: Let_def split: prod.splits)
next
  case (Cons a scr)
  obtain t s where a: "a = (t, s)" by (cases a)
  show ?case
  proof (cases s)
    case (CtxDone c)
    with Cons.prems a show ?thesis by (auto simp: Let_def split: prod.splits)
  next
    case (FsEvent ev)
    with Cons.prems a show ?thesis
      by (auto simp: Let_def split: prod.splits dest!: Cons.IH)
  next
    case (FsError x)
    with Cons.prems a show ?thesis by (auto simp: Let_def split: prod.splits)
  next
    case (Runtime r)
    with Cons.prems a show ?thesis
      by (auto simp: Let_def split: prod.splits dest!: Cons.IH)
  next
    case Receive
    with Cons.prems a show ?thesis
      by (auto simp: Let_def split: prod.splits dest!: Cons.IH)
  qed
qed

lemma Multi_loop_rest: "Multi_loop e cfg w cur st scr = (tr, x, st', rest) \<Longrightarrow> set rest \<subseteq> set scr"
proof (induction scr arbitrary: st tr)
  case Nil
  then show ?case by (auto simp: Let_def split: prod.splits)
next
  case (Cons a scr)
  obtain t s where a: "a = (t, s)" by (cases a)
  show ?case
  proof (cases s)
    case (CtxDone c)
    with Cons.prems a show ?thesis by (auto simp: Let_def split: prod.splits)
  next
    case (FsEvent ev)
    with Cons.prems a show ?thesis
      by (auto simp: Let_def split: prod.splits dest!: Cons.IH)
  next
    case (FsError x)
    with Cons.prems a show ?thesis by (auto simp: Let_def split: prod.splits)
  next
    case (Runtime r)
    with Cons.prems a show ?thesis
      by (auto simp: Let_def split: prod.splits dest!: Cons.IH)
  next
    case Receive
    with Cons.prems a show ?thesis
      by (auto simp: Let_def split: prod.splits dest!: Cons.IH)
  qed
qed

lemma Multi_wait_Some:
  "Multi_wait cfg wake st scr = (Some (t, c), st', rest) \<Longrightarrow> \<exists>t'. (t', CtxDone c) \<in> set scr"
proof (induction scr arbitrary: st)
  case Nil
  then show ?case by simp
next
  case (Cons a scr)
  obtain u s where a: "a = (u, s)" by (cases a)
  with Cons.prems show ?case
    by (cases s) (auto split: if_splits dest!: Cons.IH)
qed

lemma Multi_wait_rest:
  "Multi_wait cfg wake st scr = (r, st', rest) \<Longrightarrow> set rest \<subseteq> set scr"
proof (induction scr arbitrary: st)
  case Nil
  then show ?case by simp
next
  case (Cons a scr)
  obtain u s where a: "a = (u, s)" by (cases a)
  with Cons.prems show ?case
    by (cases s) (auto split: if_splits dest!: Cons.IH)
qed

lemma Multi_retry_Some:
  "Multi_retry cfg st scr = (Some (t, c), st', rest) \<Longrightarrow> \<exists>t'. (t', CtxDone c) \<in> set scr"
  unfolding Multi_retry_def by (rule Multi_wait_Some)

lemma Multi_retry_rest:
  "Multi_retry cfg st scr = (r, st', rest) \<Longrightarrow> set rest \<subseteq> set scr"
  unfolding Multi_retry_def by (rule Multi_wait_rest)

lemma add_dirs_rest:
  "add_dirs e cfg w dirs st scr = (tr, r, st', rest) \<Longrightarrow> set rest \<subseteq> set scr"
proof (induction dirs arbitrary: st scr tr)
  case Nil
  then show ?case by simp
next
  case (Cons dir dirs)
  show ?case
  proof (cases "fsnotify_Add e w dir (now st)")
    case None
    with Cons.prems show ?thesis
      by (auto simp: Let_def split: prod.splits dest!: Cons.IH)
  next
    case (Some er)
    obtain r1 st1 rest1 where R: "Multi_retry cfg st scr = (r1, st1, rest1)"
      by (metis prod_cases3)
    show ?thesis
    proof (cases r1)
      case None
      with Some R Cons.prems obtain tr' where "add_dirs e cfg w dirs st1 rest1 = (tr', r, st', rest)"
        by (auto simp: Let_def split: prod.splits)
      from Cons.IH [OF this] Multi_retry_rest [OF R] show ?thesis by blast
    next
      case (Some tc)
      with \<open>fsnotify_Add e w dir (now st) = Some er\<close> R Cons.prems Multi_retry_rest [OF R]
      show ?thesis by (cases tc) (auto simp: Let_def)
    qed
  qed
qed

lemma add_dirs_Some:
  "add_dirs e cfg w dirs st scr = (tr, Some c, st', rest) \<Longrightarrow> \<exists>t. (t, CtxDone c) \<in> set scr"
proof (induction dirs arbitrary: st scr tr)
  case Nil
  then show ?case by simp
next
  case (Cons dir dirs)
  show ?case
  proof (cases "fsnotify_Add e w dir (now st)")
    case None
    with Cons.prems show ?thesis
      by (auto simp: Let_def split: prod.splits dest!: Cons.IH)
  next
    case (Some er)
    obtain r1 st1 rest1 where R: "Multi_retry cfg st scr = (r1, st1, rest1)"
      by (metis prod_cases3)
    show ?thesis
    proof (cases r1)
      case None
      with Some R Cons.prems obtain tr' where "add_dirs e cfg w dirs st1 rest1 = (tr', Some c, st', rest)"
        by (auto simp: Let_def split: prod.splits)
      from Cons.IH [OF this] Multi_retry_rest [OF R] show ?thesis by blast
    next
      case (Some tc)
      with \<open>fsnotify_Add e w dir (now st) = Some er\<close> R Cons.prems
        Multi_retry_Some [of cfg st scr "fst tc" "snd tc" st1 rest1]
      show ?thesis by (cases tc) (auto simp: Let_def)
    qed
  qed
qed

lemma Multi_sessions_Returns:
  "Multi_sessions n e cfg m st scr = (tr, Returns err) \<Longrightarrow> \<exists>t c. err = CtxErr c \<and> (t, CtxDone c) \<in> set scr"
proof (induction n arbitrary: st scr tr)
  case 0
  then show ?case by simp
next
  case (Suc n)
  let ?w = "watchers st"
  let ?st0 = "st\<lparr>watchers := Suc ?w\<rparr>"
  show ?case
  proof (cases "fsnotify_NewWatcher e ?w (now st)")
    case (Some er)
    obtain r st1 rest where R: "Multi_retry cfg ?st0 scr = (r, st1, rest)"
      by (metis prod_cases3)
    show ?thesis
    proof (cases r)
      case None
      with Some R Suc.prems obtain tr' where "Multi_sessions n e cfg m st1 rest = (tr', Returns err)"
        by (auto simp: Let_def split: prod.splits)
      from Suc.IH [OF this] Multi_retry_rest [OF R] show ?thesis by blast
    next
      case (Some tc)
      with \<open>fsnotify_NewWatcher e ?w (now st) = Some er\<close> R Suc.prems
        Multi_retry_Some [of cfg ?st0 scr "fst tc" "snd tc" st1 rest]
      show ?thesis by (cases tc) (auto simp: Let_def)
    qed
  next
    case None
    note nw = this
    obtain tr1 r st1 rest where A: "add_dirs e cfg ?w (range_keys e ?w m) ?st0 scr = (tr1, r, st1, rest)"
      by (metis prod_cases4)
    show ?thesis
    proof (cases r)
      case (Some c)
      with nw A Suc.prems have "err = CtxErr c" by (simp add: Let_def)
      with add_dirs_Some A Some show ?thesis by blast
    next
      case None
      let ?cur = "sessions st1"
      let ?st2 = "st1\<lparr>sessions := Suc ?cur,
                        debouncedEvents := (debouncedEvents st1)(?cur := []),
                        activeTimers := (activeTimers st1)(?cur := [])\<rparr>"
      obtain tr2 x st3 rest' where L: "Multi_loop e cfg ?w ?cur ?st2 rest = (tr2, x, st3, rest')"
        by (metis prod_cases4)
      show ?thesis
      proof (cases x)
        case (Return er)
        with nw None A L Suc.prems have "er = err" by (simp add: Let_def)
        with Multi_loop_Return L Return add_dirs_rest [OF A] show ?thesis by blast
      next
        case BreakLoop
        with nw None A L Suc.prems obtain tr' where "Multi_sessions n e cfg m st3 rest' = (tr', Returns err)"
          by (auto simp: Let_def split: prod.splits)
        from Suc.IH [OF this] Multi_loop_rest [OF L] add_dirs_rest [OF A] show ?thesis by blast
      next
        case Blocked
        with nw None A L Suc.prems show ?thesis by (simp add: Let_def)
      qed
    qed
  qed
qed

lemma Watch_defaults_fields:
  "Config.OnChange (Watch_defaults cfg) = Config.OnChange cfg"
  "Config.OnEvent (Watch_defaults cfg) = Config.OnEvent cfg"
  "Config.OnError (Watch_defaults cfg) = Config.OnError cfg"
  "Config.TargetFile (Watch_defaults cfg) = Config.TargetFile cfg"
  by (simp_all add: Watch_defaults_def Let_def)

lemma WatchMultiple_defaults_fields:
  "OnChange (WatchMultiple_defaults cfg) = OnChange cfg"
  "OnEvent (WatchMultiple_defaults cfg) = OnEvent cfg"
  "OnError (WatchMultiple_defaults cfg) = OnError cfg"
  "TargetFiles (WatchMultiple_defaults cfg) = TargetFiles cfg"
  by (simp_all add: WatchMultiple_defaults_def Let_def)


subsection \<open>Validation\<close>

text \<open>
  C4. When the change callback is nil (\<open>Watch\<close>, \<open>WatchMultiple\<close>) or the list of targets is
  empty (\<open>WatchMultiple\<close>), the function returns its configuration error at once, whatever
  the environment, the script and the fuel: the trace of the run is empty, so no watcher was
  made and no callback was called.
\<close>

theorem config_error_before_any_session:
  "(\<not> Config.OnChange cfg \<longrightarrow>
      Watch fuel e cfg scr = ([], Returns (ErrorsNew ''OnChange callback must be set'')))
   \<and> (\<not> OnChange mcfg \<longrightarrow>
      WatchMultiple fuel e mcfg scr = ([], Returns (ErrorsNew ''OnChange callback must be set'')))
   \<and> (OnChange mcfg \<and> TargetFiles mcfg = [] \<longrightarrow>
      WatchMultiple fuel e mcfg scr
        = ([], Returns (ErrorsNew ''at least one target file must be specified'')))"
  by (simp add: Watch_def WatchMultiple_def Watch_defaults_fields WatchMultiple_defaults_fields Let_def)

theorem config_error_before_any_session_witness:
  "Watch 3 ex_env (ex_cfg\<lparr>Config.OnChange := False\<rparr>) [(0, ex_write ''/a/t'')]
     = ([], Returns (ErrorsNew ''OnChange callback must be set''))
   \<and> WatchMultiple 3 ex_env (ex_mcfg\<lparr>OnChange := False\<rparr>) [(0, ex_write ''/a/t'')]
     = ([], Returns (ErrorsNew ''OnChange callback must be set''))
   \<and> WatchMultiple 3 ex_env (ex_mcfg\<lparr>TargetFiles := []\<rparr>) [(0, ex_write ''/a/t'')]
     = ([], Returns (ErrorsNew ''at least one target file must be specified''))"
  using config_error_before_any_session
    [where cfg = "ex_cfg\<lparr>Config.OnChange := False\<rparr>" and fuel = 3 and e = ex_env
       and scr = "[(0, ex_write ''/a/t'')]" and mcfg = "ex_mcfg\<lparr>OnChange := False\<rparr>"]
    config_error_before_any_session
    [where cfg = ex_cfg and fuel = 3 and e = ex_env
       and scr = "[(0, ex_write ''/a/t'')]" and mcfg = "ex_mcfg\<lparr>TargetFiles := []\<rparr>"]
  by (simp add: ex_cfg_def ex_mcfg_def)

text \<open>
  C7. A settle delay of zero becomes 3 seconds and a retry delay of zero becomes 2 seconds;
  other values stay as they are. The replacement is made before the outer loop: the whole
  run is the loop of sessions on the one configuration with the defaults in it, which the
  loop hands on unchanged from turn to turn.
\<close>

theorem defaults_applied_once_at_validation:
  "Watch fuel e cfg scr =
     (if Config.OnChange cfg then
        Watch_sessions fuel e
          (cfg\<lparr>Config.Debounce := (if Config.Debounce cfg = 0 then 3 * 1000000000 else Config.Debounce cfg),
               Config.RetryDelay := (if Config.RetryDelay cfg = 0 then 2 * 1000000000 else Config.RetryDelay cfg)\<rparr>)
          \<lparr>now = 0, watchers = 0, debounce = None\<rparr> scr
      else ([], Returns (ErrorsNew ''OnChange callback must be set'')))
   \<and> WatchMultiple fuel e mcfg scr =
     (if \<not> OnChange mcfg then ([], Returns (ErrorsNew ''OnChange callback must be set''))
      else if TargetFiles mcfg = [] then ([], Returns (ErrorsNew ''at least one target file must be specified''))
      else
        (let dirToFiles = group_files (filepath_Dir e) (TargetFiles mcfg) [];
             run = Multi_sessions fuel e
                (mcfg\<lparr>Debounce := (if Debounce mcfg = 0 then 3 * 1000000000 else Debounce mcfg),
                      RetryDelay := (if RetryDelay mcfg = 0 then 2 * 1000000000 else RetryDelay mcfg)\<rparr>)
                dirToFiles mstate0 scr
         in (on_event (OnEvent mcfg) 0
               (''watching '' @ decimal (length (TargetFiles mcfg)) @ '' files across ''
                @ decimal (length dirToFiles) @ '' directories'') @ fst run,
             snd run)))"
proof -
  have w: "Watch_defaults cfg =
      cfg\<lparr>Config.Debounce := (if Config.Debounce cfg = 0 then 3 * 1000000000 else Config.Debounce cfg),
          Config.RetryDelay := (if Config.RetryDelay cfg = 0 then 2 * 1000000000 else Config.RetryDelay cfg)\<rparr>"
    by (simp add: Watch_defaults_def DefaultDebounce_def DefaultRetryDelay_def Second_def Let_def)
  have m: "WatchMultiple_defaults mcfg =
      mcfg\<lparr>Debounce := (if Debounce mcfg = 0 then 3 * 1000000000 else Debounce mcfg),
           RetryDelay := (if RetryDelay mcfg = 0 then 2 * 1000000000 else RetryDelay mcfg)\<rparr>"
    by (simp add: WatchMultiple_defaults_def DefaultDebounce_def DefaultRetryDelay_def Second_def Let_def)
  have "Watch fuel e cfg scr =
     (if Config.OnChange cfg then
        Watch_sessions fuel e (Watch_defaults cfg) \<lparr>now = 0, watchers = 0, debounce = None\<rparr> scr
      else ([], Returns (ErrorsNew ''OnChange callback must be set'')))"
    by (simp add: Watch_def Watch_defaults_fields Let_def)
  moreover have "WatchMultiple fuel e mcfg scr =
     (if \<not> OnChange mcfg then ([], Returns (ErrorsNew ''OnChange callback must be set''))
      else if TargetFiles mcfg = [] then ([], Returns (ErrorsNew ''at least one target file must be specified''))
      else
        (let dirToFiles = group_files (filepath_Dir e) (TargetFiles mcfg) [];
             run = Multi_sessions fuel e (WatchMultiple_defaults mcfg) dirToFiles mstate0 scr
         in (on_event (OnEvent mcfg) 0
               (''watching '' @ decimal (length (TargetFiles mcfg)) @ '' files across ''
                @ decimal (length dirToFiles) @ '' directories'') @ fst run,
             snd run)))"
    by (simp add: WatchMultiple_def WatchMultiple_defaults_fields Let_def split: prod.splits)
  ultimately show ?thesis
    by (simp only: w m)
qed

theorem defaults_applied_once_at_validation_witness:
  "Watch 1 ex_env ex_cfg [(7, CtxDone Canceled)] =
     Watch_sessions 1 ex_env (ex_cfg\<lparr>Config.Debounce := 50, Config.RetryDelay := 2000000000\<rparr>)
       \<lparr>now = 0, watchers = 0, debounce = None\<rparr> [(7, CtxDone Canceled)]
   \<and> snd (WatchMultiple 1 ex_env (ex_mcfg\<lparr>Debounce := 0\<rparr>) [(7, CtxDone Canceled)]) =
     snd (Multi_sessions 1 ex_env (ex_mcfg\<lparr>Debounce := 3000000000, RetryDelay := 2000000000\<rparr>)
       (group_files ex_Dir [''/a/x'', ''/b/y''] []) mstate0 [(7, CtxDone Canceled)])"
  using defaults_applied_once_at_validation
    [where cfg = ex_cfg and mcfg = "ex_mcfg\<lparr>Debounce := 0\<rparr>" and fuel = 1 and e = ex_env
       and scr = "[(7, CtxDone Canceled)]"]
  by (simp add: ex_cfg_def ex_mcfg_def ex_env_def Let_def)

subsection \<open>What a run returns\<close>

text \<open>
  C6. A run of \<open>Watch\<close> or \<open>WatchMultiple\<close> that returns, returns either its configuration
  error, before anything else happened, or the error of the context, and then the script
  holds the cancellation it reports. An error of the event source is never returned.
\<close>

theorem returns_only_config_error_or_cancellation:
  "(Watch fuel e cfg scr = (tr, Returns err) \<longrightarrow>
      (err = ErrorsNew ''OnChange callback must be set'' \<and> \<not> Config.OnChange cfg \<and> tr = [])
      \<or> (\<exists>t c. err = CtxErr c \<and> (t, CtxDone c) \<in> set scr))
   \<and> (WatchMultiple fuel e mcfg scr = (mtr, Returns merr) \<longrightarrow>
      (merr = ErrorsNew ''OnChange callback must be set'' \<and> \<not> OnChange mcfg \<and> mtr = [])
      \<or> (merr = ErrorsNew ''at least one target file must be specified'' \<and> TargetFiles mcfg = [] \<and> mtr = [])
      \<or> (\<exists>t c. merr = CtxErr c \<and> (t, CtxDone c) \<in> set scr))"
proof (intro conjI impI)
  assume W: "Watch fuel e cfg scr = (tr, Returns err)"
  show "(err = ErrorsNew ''OnChange callback must be set'' \<and> \<not> Config.OnChange cfg \<and> tr = [])
      \<or> (\<exists>t c. err = CtxErr c \<and> (t, CtxDone c) \<in> set scr)"
  proof (cases "Config.OnChange cfg")
    case False
    with W show ?thesis by (simp add: Watch_def Watch_defaults_fields Let_def)
  next
    case True
    with W have "Watch_sessions fuel e (Watch_defaults cfg) \<lparr>now = 0, watchers = 0, debounce = None\<rparr> scr = (tr, Returns err)"
      by (simp add: Watch_def Watch_defaults_fields Let_def)
    from Watch_sessions_Returns [OF this] show ?thesis by blast
  qed
next
  assume W: "WatchMultiple fuel e mcfg scr = (mtr, Returns merr)"
  let ?cfg = "WatchMultiple_defaults mcfg"
  have d: "OnChange ?cfg = OnChange mcfg" "TargetFiles ?cfg = TargetFiles mcfg"
    by (simp_all add: WatchMultiple_defaults_fields)
  show "(merr = ErrorsNew ''OnChange callback must be set'' \<and> \<not> OnChange mcfg \<and> mtr = [])
      \<or> (merr = ErrorsNew ''at least one target file must be specified'' \<and> TargetFiles mcfg = [] \<and> mtr = [])
      \<or> (\<exists>t c. merr = CtxErr c \<and> (t, CtxDone c) \<in> set scr)"
  proof (cases "OnChange mcfg \<and> TargetFiles mcfg \<noteq> []")
    case False
    with W d show ?thesis by (auto simp: WatchMultiple_def Let_def split: if_splits)
  next
    case True
    with W d obtain tr' where "Multi_sessions fuel e ?cfg (group_files (filepath_Dir e) (TargetFiles ?cfg) []) mstate0 scr = (tr', Returns merr)"
      by (auto simp: WatchMultiple_def Let_def split: if_splits prod.splits)
    from Multi_sessions_Returns [OF this] show ?thesis by blast
  qed
qed

theorem returns_only_config_error_or_cancellation_witness:
  "Watch 2 ex_env ex_cfg [(0, ex_write ''/a/t''), (5, FsError (Some (AdapterError ''overflow''))), (9, CtxDone Canceled)]
     = ([(0, CallNewWatcher 0 None), (0, CallAdd 0 ''/a'' None), (0, CallOnEvent ''watching /a''),
         (0, CallOnEvent ''change detected: /a/t''),
         (5, CallOnError (AdapterError ''overflow'')), (5, CallClose 0),
         (5, CallNewWatcher 1 None), (5, CallAdd 1 ''/a'' None), (5, CallOnEvent ''watching /a''),
         (9, CallClose 1)],
        Returns (CtxErr Canceled))
   \<and> WatchMultiple 2 ex_env ex_mcfg [(5, FsError (Some (AdapterError ''overflow''))), (9, CtxDone DeadlineExceeded)]
     = ([(0, CallOnEvent ''watching 2 files across 2 directories''),
         (0, CallNewWatcher 0 None), (0, CallAdd 0 ''/a'' None), (0, CallOnEvent ''watching directory: /a''),
         (0, CallAdd 0 ''/b'' None), (0, CallOnEvent ''watching directory: /b''),
         (5, CallOnError (AdapterError ''overflow'')), (5, CallClose 0),
         (5, CallNewWatcher 1 None), (5, CallAdd 1 ''/a'' None), (5, CallOnEvent ''watching directory: /a''),
         (5, CallAdd 1 ''/b'' None), (5, CallOnEvent ''watching directory: /b''),
         (9, CallClose 1)],
        Returns (CtxErr DeadlineExceeded))
   \<and> (\<exists>t c. CtxErr Canceled = CtxErr c
          \<and> (t, CtxDone c) \<in> set ([(0, ex_write ''/a/t''), (5, FsError (Some (AdapterError ''overflow''))), (9, CtxDone Canceled)] :: script))"
proof -
  let ?scr = "[(0, ex_write ''/a/t''), (5, FsError (Some (AdapterError ''overflow''))), (9, CtxDone Canceled)] :: script"
  let ?tr = "[(0 :: time, CallNewWatcher 0 None), (0, CallAdd 0 ''/a'' None), (0, CallOnEvent ''watching /a''),
         (0, CallOnEvent ''change detected: /a/t''),
         (5, CallOnError (AdapterError ''overflow'')), (5, CallClose 0),
         (5, CallNewWatcher 1 None), (5, CallAdd 1 ''/a'' None), (5, CallOnEvent ''watching /a''),
         (9, CallClose 1)]"
  have a: "Watch 2 ex_env ex_cfg ?scr = (?tr, Returns (CtxErr Canceled))"
    by code_simp
  have b: "WatchMultiple 2 ex_env ex_mcfg [(5, FsError (Some (AdapterError ''overflow''))), (9, CtxDone DeadlineExceeded)]
     = ([(0, CallOnEvent ''watching 2 files across 2 directories''),
         (0, CallNewWatcher 0 None), (0, CallAdd 0 ''/a'' None), (0, CallOnEvent ''watching directory: /a''),
         (0, CallAdd 0 ''/b'' None), (0, CallOnEvent ''watching directory: /b''),
         (5, CallOnError (AdapterError ''overflow'')), (5, CallClose 0),
         (5, CallNewWatcher 1 None), (5, CallAdd 1 ''/a'' None), (5, CallOnEvent ''watching directory: /a''),
         (5, CallAdd 1 ''/b'' None), (5, CallOnEvent ''watching directory: /b''),
         (9, CallClose 1)],
        Returns (CtxErr DeadlineExceeded))"
    by code_simp
  from returns_only_config_error_or_cancellation
         [where fuel = 2 and e = ex_env and cfg = ex_cfg and scr = ?scr and tr = ?tr
            and err = "CtxErr Canceled"] a
  have "\<exists>t c. CtxErr Canceled = CtxErr c \<and> (t, CtxDone c) \<in> set ?scr"
    by blast
  with a b show ?thesis
    by blast
qed

subsection \<open>The filter on raw events\<close>



subsection \<open>Grouping by directory\<close>











subsection \<open>Failures of the event source\<close>

text \<open>
  C1. In \<open>WatchMultiple\<close>, a failed registration is reported and the watcher is closed, but
  after the wait the \<open>continue\<close> of line 213 resumes the \<open>range\<close> over the directories on the
  closed watcher instead of the outer loop. With the targets \<open>/a/x\<close> and \<open>/b/y\<close> and a
  first watcher that cannot register \<open>/a\<close>: after the wait of 2 seconds the code calls
  \<open>Add\<close> for \<open>/b\<close> on the closed watcher 0, reports its failure too, waits 2 more seconds, and
  enters the event loop on watcher 0 with no directory registered. The second watcher is
  made only when the event loop leaves on the nil error of the closed watcher.
\<close>

theorem WatchMultiple_resumes_range_after_failed_registration:
  "WatchMultiple 2 ex_env_missing ex_mcfg [(4000000000, FsError None)] =
     ([(0, CallOnEvent ''watching 2 files across 2 directories''),
       (0, CallNewWatcher 0 None),
       (0, CallAdd 0 ''/a'' (Some (AdapterError ''no such file or directory''))),
       (0, CallOnError (WatchDirError ''/a'' (AdapterError ''no such file or directory''))),
       (0, CallClose 0),
       (2000000000, CallAdd 0 ''/b'' (Some (AdapterError ''watcher already closed''))),
       (2000000000, CallOnError (WatchDirError ''/b'' (AdapterError ''watcher already closed''))),
       (2000000000, CallClose 0),
       (4000000000, CallClose 0),
       (4000000000, CallNewWatcher 1 None),
       (4000000000, CallAdd 1 ''/a'' None),
       (4000000000, CallOnEvent ''watching directory: /a''),
       (4000000000, CallAdd 1 ''/b'' None),
       (4000000000, CallOnEvent ''watching directory: /b'')],
      StillWatching)"
  by code_simp

text \<open>
  C2. After an error of the event source in the middle of a session the loop is left, the
  watcher is closed and the next watcher is made at the same instant: there is no wait of
  the retry delay (2 seconds here, the default) between the two, in \<open>Watch\<close> and in
  \<open>WatchMultiple\<close>.
\<close>

theorem no_retry_delay_after_mid_session_error:
  "Watch 2 ex_env ex_cfg [(5, FsError (Some (AdapterError ''overflow'')))] =
     ([(0, CallNewWatcher 0 None), (0, CallAdd 0 ''/a'' None), (0, CallOnEvent ''watching /a''),
       (5, CallOnError (AdapterError ''overflow'')), (5, CallClose 0),
       (5, CallNewWatcher 1 None), (5, CallAdd 1 ''/a'' None), (5, CallOnEvent ''watching /a'')],
      StillWatching)
   \<and> WatchMultiple 2 ex_env ex_mcfg [(5, FsError (Some (AdapterError ''overflow'')))] =
     ([(0, CallOnEvent ''watching 2 files across 2 directories''),
       (0, CallNewWatcher 0 None), (0, CallAdd 0 ''/a'' None), (0, CallOnEvent ''watching directory: /a''),
       (0, CallAdd 0 ''/b'' None), (0, CallOnEvent ''watching directory: /b''),
       (5, CallOnError (AdapterError ''overflow'')), (5, CallClose 0),
       (5, CallNewWatcher 1 None), (5, CallAdd 1 ''/a'' None), (5, CallOnEvent ''watching directory: /a''),
       (5, CallAdd 1 ''/b'' None), (5, CallOnEvent ''watching directory: /b'')],
      StillWatching)"
  by code_simp

end
